theory Spec2Isabelle
  imports Complex_Main
begin

section \<open>GLSL values\<close>

text \<open>
  The shaders of \<^verbatim>\<open>src/shader_opengl.h\<close> compute on \<^verbatim>\<open>float\<close>, \<^verbatim>\<open>vec2\<close>, \<^verbatim>\<open>vec3\<close>,
  \<^verbatim>\<open>vec4\<close>, \<^verbatim>\<open>mat3\<close> and \<^verbatim>\<open>mat4\<close>. A \<^verbatim>\<open>float\<close> is modelled as a \<^typ>\<open>real\<close>: the
  arithmetic is exact, there is no rounding, no infinity and no NaN. Division by zero,
  which GLSL leaves undefined, is \<open>0\<close> in HOL; every statement below that goes through a
  division fixes or assumes a nonzero divisor. A matrix is stored by columns, as GLSL
  does. The two \<^verbatim>\<open>int\<close> uniforms are only ever compared with literals, so they are
  modelled as \<^typ>\<open>int\<close>.
\<close>

datatype vec2 = vec2 (vec2_x: real) (vec2_y: real)
datatype vec3 = vec3 (vec3_x: real) (vec3_y: real) (vec3_z: real)
datatype vec4 = vec4 (vec4_x: real) (vec4_y: real) (vec4_z: real) (vec4_w: real)
datatype mat3 = mat3 (mat3_c0: vec3) (mat3_c1: vec3) (mat3_c2: vec3)
datatype mat4 = mat4 (mat4_c0: vec4) (mat4_c1: vec4) (mat4_c2: vec4) (mat4_c3: vec4)

text \<open>Constructors: \<^verbatim>\<open>vec2(s)\<close>, \<^verbatim>\<open>vec4(s)\<close>, \<^verbatim>\<open>vec3(v, s)\<close>, \<^verbatim>\<open>vec4(v, s)\<close>.\<close>

definition vec2_splat :: "real \<Rightarrow> vec2" where
  "vec2_splat s = vec2 s s"

definition vec4_splat :: "real \<Rightarrow> vec4" where
  "vec4_splat s = vec4 s s s s"

definition vec3_of :: "vec2 \<Rightarrow> real \<Rightarrow> vec3" where
  "vec3_of v s = vec3 (vec2_x v) (vec2_y v) s"

definition vec4_of :: "vec3 \<Rightarrow> real \<Rightarrow> vec4" where
  "vec4_of v s = vec4 (vec3_x v) (vec3_y v) (vec3_z v) s"

text \<open>Swizzles \<^verbatim>\<open>.xy\<close> of a \<^verbatim>\<open>vec3\<close> and \<^verbatim>\<open>.xyz\<close> of a \<^verbatim>\<open>vec4\<close>.\<close>

definition vec3_xy :: "vec3 \<Rightarrow> vec2" where
  "vec3_xy v = vec2 (vec3_x v) (vec3_y v)"

definition vec4_xyz :: "vec4 \<Rightarrow> vec3" where
  "vec4_xyz v = vec3 (vec4_x v) (vec4_y v) (vec4_z v)"

text \<open>Componentwise operators of GLSL.\<close>

definition abs2 :: "vec2 \<Rightarrow> vec2" where
  "abs2 v = vec2 \<bar>vec2_x v\<bar> \<bar>vec2_y v\<bar>"

definition sub2 :: "vec2 \<Rightarrow> vec2 \<Rightarrow> vec2" where
  "sub2 a b = vec2 (vec2_x a - vec2_x b) (vec2_y a - vec2_y b)"

definition mul2 :: "vec2 \<Rightarrow> vec2 \<Rightarrow> vec2" where
  "mul2 a b = vec2 (vec2_x a * vec2_x b) (vec2_y a * vec2_y b)"

definition div2 :: "vec2 \<Rightarrow> vec2 \<Rightarrow> vec2" where
  "div2 a b = vec2 (vec2_x a / vec2_x b) (vec2_y a / vec2_y b)"

definition smul3 :: "vec3 \<Rightarrow> real \<Rightarrow> vec3" where
  "smul3 v s = vec3 (vec3_x v * s) (vec3_y v * s) (vec3_z v * s)"

definition smul4 :: "vec4 \<Rightarrow> real \<Rightarrow> vec4" where
  "smul4 v s = vec4 (vec4_x v * s) (vec4_y v * s) (vec4_z v * s) (vec4_w v * s)"

definition mul4 :: "vec4 \<Rightarrow> vec4 \<Rightarrow> vec4" where
  "mul4 a b = vec4 (vec4_x a * vec4_x b) (vec4_y a * vec4_y b)
                   (vec4_z a * vec4_z b) (vec4_w a * vec4_w b)"

definition add4 :: "vec4 \<Rightarrow> vec4 \<Rightarrow> vec4" where
  "add4 a b = vec4 (vec4_x a + vec4_x b) (vec4_y a + vec4_y b)
                   (vec4_z a + vec4_z b) (vec4_w a + vec4_w b)"

text \<open>
  Built-in functions, by their definitions in the GLSL specification:
  \<^verbatim>\<open>clamp(x, lo, hi) = min(max(x, lo), hi)\<close>, \<^verbatim>\<open>mix(x, y, a) = x * (1 - a) + y * a\<close>,
  \<^verbatim>\<open>length(v) = sqrt(v.x * v.x + v.y * v.y)\<close>.
\<close>

definition clamp :: "real \<Rightarrow> real \<Rightarrow> real \<Rightarrow> real" where
  "clamp x lo hi = min (max x lo) hi"

definition clamp2 :: "vec2 \<Rightarrow> real \<Rightarrow> real \<Rightarrow> vec2" where
  "clamp2 v lo hi = vec2 (clamp (vec2_x v) lo hi) (clamp (vec2_y v) lo hi)"

definition max2 :: "vec2 \<Rightarrow> real \<Rightarrow> vec2" where
  "max2 v s = vec2 (max (vec2_x v) s) (max (vec2_y v) s)"

definition length2 :: "vec2 \<Rightarrow> real" where
  "length2 v = sqrt (vec2_x v * vec2_x v + vec2_y v * vec2_y v)"

definition mix4 :: "vec4 \<Rightarrow> vec4 \<Rightarrow> real \<Rightarrow> vec4" where
  "mix4 a b t = add4 (smul4 a (1 - t)) (smul4 b t)"

text \<open>Matrix times vector: the linear combination of the columns.\<close>

definition mat3_mul_vec3 :: "mat3 \<Rightarrow> vec3 \<Rightarrow> vec3" where
  "mat3_mul_vec3 m v =
     vec3 (vec3_x (mat3_c0 m) * vec3_x v + vec3_x (mat3_c1 m) * vec3_y v + vec3_x (mat3_c2 m) * vec3_z v)
          (vec3_y (mat3_c0 m) * vec3_x v + vec3_y (mat3_c1 m) * vec3_y v + vec3_y (mat3_c2 m) * vec3_z v)
          (vec3_z (mat3_c0 m) * vec3_x v + vec3_z (mat3_c1 m) * vec3_y v + vec3_z (mat3_c2 m) * vec3_z v)"

definition mat4_mul_vec4 :: "mat4 \<Rightarrow> vec4 \<Rightarrow> vec4" where
  "mat4_mul_vec4 m v =
     vec4 (vec4_x (mat4_c0 m) * vec4_x v + vec4_x (mat4_c1 m) * vec4_y v
             + vec4_x (mat4_c2 m) * vec4_z v + vec4_x (mat4_c3 m) * vec4_w v)
          (vec4_y (mat4_c0 m) * vec4_x v + vec4_y (mat4_c1 m) * vec4_y v
             + vec4_y (mat4_c2 m) * vec4_z v + vec4_y (mat4_c3 m) * vec4_w v)
          (vec4_z (mat4_c0 m) * vec4_x v + vec4_z (mat4_c1 m) * vec4_y v
             + vec4_z (mat4_c2 m) * vec4_z v + vec4_z (mat4_c3 m) * vec4_w v)
          (vec4_w (mat4_c0 m) * vec4_x v + vec4_w (mat4_c1 m) * vec4_y v
             + vec4_w (mat4_c2 m) * vec4_z v + vec4_w (mat4_c3 m) * vec4_w v)"

section \<open>Uniform blocks\<close>

text \<open>The two \<^verbatim>\<open>std140\<close> blocks, with the fields in the order of the shader headers.\<close>

record VertexUniformBlock =
  matrix :: mat4
  viewSize :: vec2

record FragmentUniformBlock =
  scissorMat :: mat3
  paintMat :: mat3
  innerCol :: vec4
  outerCol :: vec4
  scissorExt :: vec2
  scissorScale :: vec2
  extent :: vec2
  radius :: real
  feather :: real
  strokeMult :: real
  strokeThr :: real
  texType :: int
  type :: int

section \<open>The fragment body without anti-aliasing\<close>

text \<open>
  \<^verbatim>\<open>openglNoAntiAliasingFragmentShaderBody\<close>. Its three helpers carry the suffix
  \<open>_noaa\<close>, since the anti-aliased body declares helpers of the same names.
\<close>

definition scissorMask_noaa :: "FragmentUniformBlock \<Rightarrow> vec2 \<Rightarrow> real" where
  "scissorMask_noaa uniforms p =
     (let sc = mul2 (sub2 (abs2 (vec3_xy (mat3_mul_vec3 (scissorMat uniforms) (vec3_of p 1))))
                          (scissorExt uniforms))
                    (scissorScale uniforms);
          sc = clamp2 (sub2 (vec2_splat 0.5) sc) 0 1
      in vec2_x sc * vec2_y sc)"

definition sdroundrect_noaa :: "FragmentUniformBlock \<Rightarrow> vec2 \<Rightarrow> real" where
  "sdroundrect_noaa uniforms pt =
     (let ext2 = sub2 (extent uniforms) (vec2_splat (radius uniforms));
          d = sub2 (abs2 pt) ext2
      in min (max (vec2_x d) (vec2_y d)) 0 + length2 (max2 d 0) - radius uniforms)"

definition strokeMask_noaa :: "FragmentUniformBlock \<Rightarrow> vec2 \<Rightarrow> real" where
  "strokeMask_noaa uniforms ftcoord =
     min 1 ((1 - \<bar>vec2_x ftcoord * 2 - 1\<bar>) * strokeMult uniforms) * min 1 (vec2_y ftcoord)"

text \<open>
  \<^verbatim>\<open>fragmentShaderNoAntiAliasing\<close> reads the varyings \<^verbatim>\<open>fpos\<close> and \<^verbatim>\<open>ftcoord\<close>, the
  uniform block and the sampler; \<^verbatim>\<open>texture(textureUnit, p)\<close> is the application of the
  function \<open>textureUnit\<close> to \<open>p\<close>.
\<close>

definition fragmentShaderNoAntiAliasing ::
  "FragmentUniformBlock \<Rightarrow> (vec2 \<Rightarrow> vec4) \<Rightarrow> vec2 \<Rightarrow> vec2 \<Rightarrow> vec4" where
  "fragmentShaderNoAntiAliasing uniforms textureUnit fpos ftcoord =
     (let scissor = scissorMask_noaa uniforms fpos in
      if scissor = 0 then vec4_splat 0
      else if type uniforms = 0 then
        (let pt = vec3_xy (mat3_mul_vec3 (paintMat uniforms) (vec3_of fpos 1));
             d = clamp ((feather uniforms * 0.5 + sdroundrect_noaa uniforms pt)
                          / feather uniforms) 0 1;
             color = mix4 (innerCol uniforms) (outerCol uniforms) d
         in smul4 color scissor)
      else if type uniforms = 1 then
        (let pt = div2 (vec3_xy (mat3_mul_vec3 (paintMat uniforms) (vec3_of fpos 1)))
                       (extent uniforms);
             color = textureUnit pt;
             color = (if texType uniforms = 1
                        then vec4_of (smul3 (vec4_xyz color) (vec4_w color)) (vec4_w color)
                      else if texType uniforms = 2 then vec4_splat (vec4_x color)
                      else color);
             color = smul4 color scissor
         in mul4 color (innerCol uniforms))
      else
        (let color = textureUnit ftcoord;
             color = (if texType uniforms = 1
                        then vec4_of (smul3 (vec4_xyz color) (vec4_w color)) (vec4_w color)
                      else if texType uniforms = 2 then vec4_splat (vec4_x color)
                      else color);
             color = smul4 color scissor
         in mul4 color (innerCol uniforms)))"

section \<open>The fragment body with anti-aliasing\<close>

text \<open>\<^verbatim>\<open>openglAntiAliasingFragmentShaderBody\<close>, with its own copies of the helpers.\<close>

definition scissorMask_aa :: "FragmentUniformBlock \<Rightarrow> vec2 \<Rightarrow> real" where
  "scissorMask_aa uniforms p =
     (let sc = mul2 (sub2 (abs2 (vec3_xy (mat3_mul_vec3 (scissorMat uniforms) (vec3_of p 1))))
                          (scissorExt uniforms))
                    (scissorScale uniforms);
          sc = clamp2 (sub2 (vec2_splat 0.5) sc) 0 1
      in vec2_x sc * vec2_y sc)"

definition sdroundrect_aa :: "FragmentUniformBlock \<Rightarrow> vec2 \<Rightarrow> real" where
  "sdroundrect_aa uniforms pt =
     (let ext2 = sub2 (extent uniforms) (vec2_splat (radius uniforms));
          d = sub2 (abs2 pt) ext2
      in min (max (vec2_x d) (vec2_y d)) 0 + length2 (max2 d 0) - radius uniforms)"

definition strokeMask_aa :: "FragmentUniformBlock \<Rightarrow> vec2 \<Rightarrow> real" where
  "strokeMask_aa uniforms ftcoord =
     min 1 ((1 - \<bar>vec2_x ftcoord * 2 - 1\<bar>) * strokeMult uniforms) * min 1 (vec2_y ftcoord)"

definition fragmentShaderAntiAliasing ::
  "FragmentUniformBlock \<Rightarrow> (vec2 \<Rightarrow> vec4) \<Rightarrow> vec2 \<Rightarrow> vec2 \<Rightarrow> vec4" where
  "fragmentShaderAntiAliasing uniforms textureUnit fpos ftcoord =
     (let scissor = scissorMask_aa uniforms fpos in
      if scissor = 0 then vec4_splat 0
      else if type uniforms = 2 then
        (let color = textureUnit ftcoord;
             color = (if texType uniforms = 1
                        then vec4_of (smul3 (vec4_xyz color) (vec4_w color)) (vec4_w color)
                      else if texType uniforms = 2 then vec4_splat (vec4_x color)
                      else color);
             color = smul4 color scissor
         in mul4 color (innerCol uniforms))
      else
        (let strokeAlpha = strokeMask_aa uniforms ftcoord in
         if strokeAlpha < strokeThr uniforms then vec4_splat 0
         else if type uniforms = 0 then
           (let pt = vec3_xy (mat3_mul_vec3 (paintMat uniforms) (vec3_of fpos 1));
                d = clamp ((feather uniforms * 0.5 + sdroundrect_aa uniforms pt)
                             / feather uniforms) 0 1;
                color = mix4 (innerCol uniforms) (outerCol uniforms) d;
                color = smul4 color scissor;
                color = smul4 color strokeAlpha
            in color)
         else
           (let pt = div2 (vec3_xy (mat3_mul_vec3 (paintMat uniforms) (vec3_of fpos 1)))
                          (extent uniforms);
                color = textureUnit pt;
                color = (if texType uniforms = 1
                           then vec4_of (smul3 (vec4_xyz color) (vec4_w color)) (vec4_w color)
                         else if texType uniforms = 2 then vec4_splat (vec4_x color)
                         else color);
                color = smul4 color scissor;
                color = smul4 color strokeAlpha
            in mul4 color (innerCol uniforms))))"

section \<open>The vertex body\<close>

text \<open>
  \<^verbatim>\<open>openglVertexShaderBody\<close>: \<^verbatim>\<open>main\<close> writes the two varyings and \<^verbatim>\<open>gl_Position\<close>,
  the latter twice. The outputs are returned as a record.
\<close>

record VertexOutput =
  out_ftcoord :: vec2
  out_fpos :: vec2
  gl_Position :: vec4

definition vertex_main :: "VertexUniformBlock \<Rightarrow> vec2 \<Rightarrow> vec2 \<Rightarrow> VertexOutput" where
  "vertex_main uniforms pos tcoord =
     (let ftcoord = tcoord;
          fpos = pos;
          gl_Position = vec4 (2 * vec2_x pos / vec2_x (viewSize uniforms) - 1)
                             (1 - 2 * vec2_y pos / vec2_y (viewSize uniforms))
                             0 1;
          gl_Position = mat4_mul_vec4 (matrix uniforms) gl_Position
      in \<lparr>out_ftcoord = ftcoord, out_fpos = fpos, gl_Position = gl_Position\<rparr>)"

section \<open>The frame of the example session\<close>






section \<open>Reference transformation and concrete inputs\<close>

text \<open>
  The specification names the texture-channel mode \<^verbatim>\<open>texType = 1\<close> "premultiply-alpha":
  a colour \<open>(r, g, b, a)\<close> becomes \<open>(r * a, g * a, b * a, a)\<close>. This is that
  transformation written from those words, to be compared with what the shaders compute
  by \<^verbatim>\<open>vec4(color.xyz * color.w, color.w)\<close>.
\<close>

definition premultiply_alpha :: "vec4 \<Rightarrow> vec4" where
  "premultiply_alpha c =
     vec4 (vec4_x c * vec4_w c) (vec4_y c * vec4_w c) (vec4_z c * vec4_w c) (vec4_w c)"

text \<open>
  Inputs at which the shaders are evaluated below: identity transforms, a scissor
  rectangle of half-extent 100, a rounded rectangle of half-extent 20 and radius 10, a
  red-to-blue gradient, a stroke threshold that never discards; a texture whose colour
  encodes the sampling point, and a constant half-transparent white texture; a 90 degree
  rotation as vertex matrix over an 800 by 600 view.
\<close>

definition identity3 :: mat3 where
  "identity3 = mat3 (vec3 1 0 0) (vec3 0 1 0) (vec3 0 0 1)"

definition sample_uniforms :: FragmentUniformBlock where
  "sample_uniforms =
     \<lparr>scissorMat = identity3, paintMat = identity3,
      innerCol = vec4 1 0 0 1, outerCol = vec4 0 0 1 1,
      scissorExt = vec2 100 100, scissorScale = vec2 1 1,
      extent = vec2 20 20, radius = 10, feather = 2,
      strokeMult = 1, strokeThr = - 1, texType = 0, type = 0\<rparr>"

definition sample_texture :: "vec2 \<Rightarrow> vec4" where
  "sample_texture p = vec4 (vec2_x p) (vec2_y p) 0 1"

definition half_alpha_texture :: "vec2 \<Rightarrow> vec4" where
  "half_alpha_texture p = vec4 1 1 1 (1/2)"

definition sample_vertex_uniforms :: VertexUniformBlock where
  "sample_vertex_uniforms =
     \<lparr>matrix = mat4 (vec4 0 1 0 0) (vec4 (- 1) 0 0 0) (vec4 0 0 1 0) (vec4 0 0 0 1),
      viewSize = vec2 800 600\<rparr>"

section \<open>Basic facts\<close>

lemmas sample_simps = sample_uniforms_def sample_texture_def identity3_def

lemmas glsl_simps = Let_def mat3_mul_vec3_def vec3_of_def vec4_of_def vec3_xy_def vec4_xyz_def
  abs2_def sub2_def mul2_def div2_def vec2_splat_def vec4_splat_def clamp2_def clamp_def
  smul3_def smul4_def mul4_def add4_def mix4_def max2_def

lemmas frag_simps = fragmentShaderNoAntiAliasing_def fragmentShaderAntiAliasing_def
  scissorMask_noaa_def scissorMask_aa_def strokeMask_aa_def strokeMask_noaa_def

lemma clamp_bounds: "lo \<le> hi \<Longrightarrow> lo \<le> clamp x lo hi \<and> clamp x lo hi \<le> hi"
  by (simp add: clamp_def)

lemma smul4_zero: "smul4 (vec4 0 0 0 0) a = vec4 0 0 0 0" "smul4 v 0 = vec4 0 0 0 0"
  by (simp_all add: smul4_def)

lemma smul4_one: "smul4 v 1 = v"
  by (simp add: smul4_def)

lemma mul4_smul4: "mul4 (smul4 c a) i = smul4 (mul4 c i) a"
  by (simp add: mul4_def smul4_def)

lemma mul4_smul4_zero:
  "mul4 (smul4 c 0) i = vec4 0 0 0 0" "mul4 (smul4 (smul4 c 0) a) i = vec4 0 0 0 0"
  by (simp_all add: smul4_def mul4_def)

lemma length2_axis: "length2 (vec2 a 0) = \<bar>a\<bar>"
  by (simp add: length2_def)

lemma scissorMask_aa_eq: "scissorMask_aa u p = scissorMask_noaa u p"
  by (simp add: scissorMask_noaa_def scissorMask_aa_def)

lemma sdroundrect_aa_eq: "sdroundrect_aa u p = sdroundrect_noaa u p"
  by (simp add: sdroundrect_noaa_def sdroundrect_aa_def)

section \<open>The helpers shared by the two fragment bodies\<close>

text \<open>
  C1. The helpers \<^verbatim>\<open>scissorMask\<close> and \<^verbatim>\<open>sdroundrect\<close> of the body without
  anti-aliasing and those of the anti-aliased body are the same functions: at every
  point and for every value of the uniform block they return the same number.
\<close>

theorem C1_helpers_agree:
  "scissorMask_noaa uniforms p = scissorMask_aa uniforms p
   \<and> sdroundrect_noaa uniforms pt = sdroundrect_aa uniforms pt"
  by (simp add: scissorMask_noaa_def scissorMask_aa_def sdroundrect_noaa_def sdroundrect_aa_def)

lemma scissorMask_noaa_range: "0 \<le> scissorMask_noaa u p \<and> scissorMask_noaa u p \<le> 1"
proof -
  let ?sc = "mul2 (sub2 (abs2 (vec3_xy (mat3_mul_vec3 (scissorMat u) (vec3_of p 1))))
                        (scissorExt u)) (scissorScale u)"
  let ?a = "clamp (1/2 - vec2_x ?sc) 0 1"
  let ?b = "clamp (1/2 - vec2_y ?sc) 0 1"
  have eq: "scissorMask_noaa u p = ?a * ?b"
    by (simp add: scissorMask_noaa_def Let_def clamp2_def sub2_def vec2_splat_def)
  have a: "0 \<le> ?a \<and> ?a \<le> 1" by (rule clamp_bounds) simp
  have b: "0 \<le> ?b \<and> ?b \<le> 1" by (rule clamp_bounds) simp
  from a b have "0 \<le> ?a * ?b" by simp
  moreover from a b have "?a * ?b \<le> 1" by (simp add: mult_le_one)
  ultimately show ?thesis by (simp only: eq)
qed

text \<open>
  C10. In both fragment bodies the value of \<^verbatim>\<open>scissorMask\<close> lies in the closed
  interval from 0 to 1, at every point and for every \<^verbatim>\<open>scissorMat\<close>, \<^verbatim>\<open>scissorExt\<close>
  and \<^verbatim>\<open>scissorScale\<close>: it is the product of two numbers clamped to that interval.
\<close>

theorem C10_scissorMask_range:
  "0 \<le> scissorMask_noaa uniforms p \<and> scissorMask_noaa uniforms p \<le> 1
   \<and> 0 \<le> scissorMask_aa uniforms p \<and> scissorMask_aa uniforms p \<le> 1"
  using scissorMask_noaa_range [of uniforms p] by (simp add: scissorMask_aa_eq)

text \<open>
  The mask vanishes exactly where, on some axis, the transformed point lies beyond the
  scissor extent by at least one half after scaling. A point beyond the extent by less
  than that is on the soft edge of the scissor and has a positive mask.
\<close>

lemma scissorMask_noaa_zero_iff:
  "scissorMask_noaa u p = 0 \<longleftrightarrow>
     (let q = abs2 (vec3_xy (mat3_mul_vec3 (scissorMat u) (vec3_of p 1)))
      in 1/2 \<le> (vec2_x q - vec2_x (scissorExt u)) * vec2_x (scissorScale u)
       \<or> 1/2 \<le> (vec2_y q - vec2_y (scissorExt u)) * vec2_y (scissorScale u))"
  by (auto simp add: scissorMask_noaa_def Let_def clamp2_def clamp_def sub2_def mul2_def
        vec2_splat_def min_def max_def)

section \<open>The scissor test\<close>

text \<open>
  C3. In both fragment bodies, at every fragment position where \<^verbatim>\<open>scissorMask\<close> is 0
  the fragment function returns the transparent colour \<open>(0, 0, 0, 0)\<close>, whatever the
  paint kind \<^verbatim>\<open>type\<close>, the other uniforms, the texture and the texture coordinate: no
  paint branch contributes. The mask is 0 in particular at every point that lies, after
  scaling, at least one half beyond the scissor extent on some axis.
\<close>

theorem C3_scissor_reject:
  "(scissorMask_noaa uniforms fpos = 0 \<longrightarrow>
      fragmentShaderNoAntiAliasing uniforms textureUnit fpos ftcoord = vec4 0 0 0 0)
   \<and> (scissorMask_aa uniforms fpos = 0 \<longrightarrow>
      fragmentShaderAntiAliasing uniforms textureUnit fpos ftcoord = vec4 0 0 0 0)
   \<and> ((let q = abs2 (vec3_xy (mat3_mul_vec3 (scissorMat uniforms) (vec3_of fpos 1)))
        in 1/2 \<le> (vec2_x q - vec2_x (scissorExt uniforms)) * vec2_x (scissorScale uniforms)
         \<or> 1/2 \<le> (vec2_y q - vec2_y (scissorExt uniforms)) * vec2_y (scissorScale uniforms))
       \<longrightarrow> fragmentShaderNoAntiAliasing uniforms textureUnit fpos ftcoord = vec4 0 0 0 0
         \<and> fragmentShaderAntiAliasing uniforms textureUnit fpos ftcoord = vec4 0 0 0 0)"
proof -
  have n: "scissorMask_noaa uniforms fpos = 0 \<Longrightarrow>
      fragmentShaderNoAntiAliasing uniforms textureUnit fpos ftcoord = vec4 0 0 0 0"
    by (simp add: fragmentShaderNoAntiAliasing_def vec4_splat_def)
  have a: "scissorMask_aa uniforms fpos = 0 \<Longrightarrow>
      fragmentShaderAntiAliasing uniforms textureUnit fpos ftcoord = vec4 0 0 0 0"
    by (simp add: fragmentShaderAntiAliasing_def vec4_splat_def)
  from n a show ?thesis
    by (simp only: scissorMask_noaa_zero_iff [symmetric] scissorMask_aa_eq) blast
qed

theorem C3_witness:
  "scissorMask_noaa sample_uniforms (vec2 200 0) = 0
   \<and> fragmentShaderNoAntiAliasing sample_uniforms sample_texture (vec2 200 0) (vec2 (1/2) 1)
       = vec4 0 0 0 0
   \<and> scissorMask_aa (sample_uniforms\<lparr>type := 2\<rparr>) (vec2 200 0) = 0
   \<and> fragmentShaderAntiAliasing (sample_uniforms\<lparr>type := 2\<rparr>) sample_texture
        (vec2 200 0) (vec2 (1/2) 1)
       = vec4 0 0 0 0
   \<and> 1/2 \<le> (\<bar>200\<bar> - vec2_x (scissorExt (sample_uniforms\<lparr>type := 1\<rparr>)))
                * vec2_x (scissorScale (sample_uniforms\<lparr>type := 1\<rparr>))
   \<and> fragmentShaderNoAntiAliasing (sample_uniforms\<lparr>type := 1\<rparr>) sample_texture
        (vec2 200 0) (vec2 (1/2) 1)
       = vec4 0 0 0 0
   \<and> fragmentShaderAntiAliasing (sample_uniforms\<lparr>type := 1\<rparr>) sample_texture
        (vec2 200 0) (vec2 (1/2) 1)
       = vec4 0 0 0 0"
proof -
  have h3: "(let q = abs2 (vec3_xy (mat3_mul_vec3 (scissorMat (sample_uniforms\<lparr>type := 1\<rparr>))
                                     (vec3_of (vec2 200 0) 1)))
             in 1/2 \<le> (vec2_x q - vec2_x (scissorExt (sample_uniforms\<lparr>type := 1\<rparr>)))
                         * vec2_x (scissorScale (sample_uniforms\<lparr>type := 1\<rparr>))
              \<or> 1/2 \<le> (vec2_y q - vec2_y (scissorExt (sample_uniforms\<lparr>type := 1\<rparr>)))
                         * vec2_y (scissorScale (sample_uniforms\<lparr>type := 1\<rparr>)))"
    by (simp add: sample_simps glsl_simps)
  have h4: "1/2 \<le> (\<bar>200\<bar> - vec2_x (scissorExt (sample_uniforms\<lparr>type := 1\<rparr>)))
                * vec2_x (scissorScale (sample_uniforms\<lparr>type := 1\<rparr>))"
    by (simp add: sample_simps)
  note r3 = C3_scissor_reject [of "sample_uniforms\<lparr>type := 1\<rparr>" "vec2 200 0" sample_texture
      "vec2 (1/2) 1", THEN conjunct2, THEN conjunct2, rule_format, OF h3]
  have h1: "scissorMask_noaa sample_uniforms (vec2 200 0) = 0"
    by (simp add: scissorMask_noaa_def sample_simps glsl_simps)
  have h2: "scissorMask_aa (sample_uniforms\<lparr>type := 2\<rparr>) (vec2 200 0) = 0"
    by (simp add: scissorMask_aa_def sample_simps glsl_simps)
  note r1 = C3_scissor_reject [of sample_uniforms "vec2 200 0" sample_texture "vec2 (1/2) 1",
      THEN conjunct1]
  note r2 = C3_scissor_reject [of "sample_uniforms\<lparr>type := 2\<rparr>" "vec2 200 0" sample_texture
      "vec2 (1/2) 1", THEN conjunct2, THEN conjunct1]
  from r1 r2 r3 h1 h2 h4 show ?thesis by simp
qed


section \<open>Paint kind and texture-channel mode in the two bodies\<close>

text \<open>
  C2 (as amended). For \<^verbatim>\<open>type\<close> in \<open>{0, 1, 2}\<close> and every \<^verbatim>\<open>texType\<close> the two bodies
  read the two selectors in the same way: for \<^verbatim>\<open>type = 2\<close> the anti-aliased body
  returns the colour of the body without anti-aliasing, and for \<^verbatim>\<open>type = 0\<close> and
  \<^verbatim>\<open>type = 1\<close> it returns that colour times the stroke coverage, or the transparent
  colour when the coverage is below \<^verbatim>\<open>strokeThr\<close>. For any other \<^verbatim>\<open>type\<close> the bodies
  differ: the body without anti-aliasing falls into its last branch and behaves as for
  \<^verbatim>\<open>type = 2\<close> (image drawn in screen space), the anti-aliased body falls into its
  last branch and behaves as for \<^verbatim>\<open>type = 1\<close> (image fill in paint space).
\<close>

theorem C2_amended:
  "(type u = 0 \<or> type u = 1 \<or> type u = 2 \<longrightarrow>
     fragmentShaderAntiAliasing u tex fpos ftcoord =
       (if type u = 2 then fragmentShaderNoAntiAliasing u tex fpos ftcoord
        else if strokeMask_aa u ftcoord < strokeThr u then vec4 0 0 0 0
        else smul4 (fragmentShaderNoAntiAliasing u tex fpos ftcoord) (strokeMask_aa u ftcoord)))
   \<and> (type u \<noteq> 0 \<and> type u \<noteq> 1 \<longrightarrow>
        fragmentShaderNoAntiAliasing u tex fpos ftcoord
          = fragmentShaderNoAntiAliasing (u\<lparr>type := 2\<rparr>) tex fpos ftcoord)
   \<and> (type u \<noteq> 0 \<and> type u \<noteq> 2 \<longrightarrow>
        fragmentShaderAntiAliasing u tex fpos ftcoord
          = fragmentShaderAntiAliasing (u\<lparr>type := 1\<rparr>) tex fpos ftcoord)"
proof (intro conjI impI)
  assume t: "type u = 0 \<or> type u = 1 \<or> type u = 2"
  show "fragmentShaderAntiAliasing u tex fpos ftcoord =
       (if type u = 2 then fragmentShaderNoAntiAliasing u tex fpos ftcoord
        else if strokeMask_aa u ftcoord < strokeThr u then vec4 0 0 0 0
        else smul4 (fragmentShaderNoAntiAliasing u tex fpos ftcoord) (strokeMask_aa u ftcoord))"
    using t
    by (auto simp add: fragmentShaderAntiAliasing_def fragmentShaderNoAntiAliasing_def Let_def
          scissorMask_aa_eq sdroundrect_aa_eq smul4_zero mul4_smul4 vec4_splat_def)
next
  assume "type u \<noteq> 0 \<and> type u \<noteq> 1"
  then show "fragmentShaderNoAntiAliasing u tex fpos ftcoord
          = fragmentShaderNoAntiAliasing (u\<lparr>type := 2\<rparr>) tex fpos ftcoord"
    by (simp add: fragmentShaderNoAntiAliasing_def Let_def scissorMask_noaa_def)
next
  assume "type u \<noteq> 0 \<and> type u \<noteq> 2"
  then show "fragmentShaderAntiAliasing u tex fpos ftcoord
          = fragmentShaderAntiAliasing (u\<lparr>type := 1\<rparr>) tex fpos ftcoord"
    by (simp add: fragmentShaderAntiAliasing_def Let_def scissorMask_aa_def strokeMask_aa_def)
qed

theorem C2_witness:
  "fragmentShaderAntiAliasing (sample_uniforms\<lparr>type := 1\<rparr>) sample_texture (vec2 0 0) (vec2 (1/2) 1)
     = smul4 (fragmentShaderNoAntiAliasing (sample_uniforms\<lparr>type := 1\<rparr>) sample_texture
                (vec2 0 0) (vec2 (1/2) 1)) 1
   \<and> fragmentShaderNoAntiAliasing (sample_uniforms\<lparr>type := 3\<rparr>) sample_texture (vec2 0 0) (vec2 (1/2) 1)
     = fragmentShaderNoAntiAliasing (sample_uniforms\<lparr>type := 2\<rparr>) sample_texture (vec2 0 0) (vec2 (1/2) 1)
   \<and> fragmentShaderAntiAliasing (sample_uniforms\<lparr>type := 3\<rparr>) sample_texture (vec2 0 0) (vec2 (1/2) 1)
     = fragmentShaderAntiAliasing (sample_uniforms\<lparr>type := 1\<rparr>) sample_texture (vec2 0 0) (vec2 (1/2) 1)"
proof -
  let ?u1 = "sample_uniforms\<lparr>type := 1\<rparr>"
  let ?u3 = "sample_uniforms\<lparr>type := 3\<rparr>"
  have st: "strokeMask_aa ?u1 (vec2 (1/2) 1) = 1" "strokeThr ?u1 = - 1"
    by (simp_all add: strokeMask_aa_def sample_simps)
  from C2_amended [of ?u1 sample_texture "vec2 0 0" "vec2 (1/2) 1"]
       C2_amended [of ?u3 sample_texture "vec2 0 0" "vec2 (1/2) 1"] st
  show ?thesis by simp
qed

text \<open>
  The claim as first stated, for every \<^verbatim>\<open>type\<close>, fails at \<^verbatim>\<open>type = 3\<close>: with full
  scissor and stroke coverage and a white \<^verbatim>\<open>innerCol\<close>, the body without anti-aliasing
  returns the texture at \<^verbatim>\<open>ftcoord = (1/2, 1)\<close>, the anti-aliased body the texture at
  the paint-space point \<open>(0, 0)\<close>.
\<close>

theorem C2_counterexample:
  "fragmentShaderNoAntiAliasing (sample_uniforms\<lparr>innerCol := vec4 1 1 1 1, type := 3\<rparr>)
       sample_texture (vec2 0 0) (vec2 (1/2) 1) = vec4 (1/2) 1 0 1
   \<and> fragmentShaderAntiAliasing (sample_uniforms\<lparr>innerCol := vec4 1 1 1 1, type := 3\<rparr>)
       sample_texture (vec2 0 0) (vec2 (1/2) 1) = vec4 0 0 0 1
   \<and> strokeMask_aa (sample_uniforms\<lparr>innerCol := vec4 1 1 1 1, type := 3\<rparr>) (vec2 (1/2) 1) = 1"
  by (simp add: fragmentShaderNoAntiAliasing_def fragmentShaderAntiAliasing_def
      scissorMask_noaa_def scissorMask_aa_def strokeMask_aa_def
      sample_uniforms_def sample_texture_def identity3_def Let_def mat3_mul_vec3_def
      vec3_of_def vec3_xy_def abs2_def sub2_def mul2_def div2_def vec2_splat_def clamp2_def clamp_def
      smul4_def mul4_def)

section \<open>Stroke coverage\<close>

text \<open>
  C4 (as amended). In the anti-aliased body, for every fragment that passes the scissor
  test and whose paint kind \<^verbatim>\<open>type\<close> is not 2, a stroke coverage
  \<^verbatim>\<open>strokeMask(ftcoord)\<close> below \<^verbatim>\<open>strokeThr\<close> makes the fragment function return the
  transparent colour. For \<^verbatim>\<open>type = 2\<close> the anti-aliased body returns the image
  colour (the texture at \<^verbatim>\<open>ftcoord\<close>, converted by \<^verbatim>\<open>texType\<close>, times the scissor
  mask and \<^verbatim>\<open>innerCol\<close>) before the stroke coverage is computed: its result does not
  depend on \<^verbatim>\<open>strokeMult\<close> or \<^verbatim>\<open>strokeThr\<close>. The body without anti-aliasing does
  not depend on \<^verbatim>\<open>strokeMult\<close> or \<^verbatim>\<open>strokeThr\<close> for any \<^verbatim>\<open>type\<close>: changing them
  leaves its result unchanged.
\<close>

theorem C4_amended:
  "(scissorMask_aa u fpos \<noteq> 0 \<and> type u \<noteq> 2 \<and> strokeMask_aa u ftcoord < strokeThr u \<longrightarrow>
      fragmentShaderAntiAliasing u tex fpos ftcoord = vec4 0 0 0 0)
   \<and> (type u = 2 \<longrightarrow>
        fragmentShaderAntiAliasing (u\<lparr>strokeMult := m, strokeThr := t\<rparr>) tex fpos ftcoord
          = fragmentShaderAntiAliasing u tex fpos ftcoord
        \<and> fragmentShaderAntiAliasing u tex fpos ftcoord
          = (if scissorMask_aa u fpos = 0 then vec4 0 0 0 0
             else mul4 (smul4 (if texType u = 1 then premultiply_alpha (tex ftcoord)
                               else if texType u = 2 then vec4_splat (vec4_x (tex ftcoord))
                               else tex ftcoord)
                              (scissorMask_aa u fpos))
                       (innerCol u)))
   \<and> fragmentShaderNoAntiAliasing (u\<lparr>strokeMult := m, strokeThr := t\<rparr>) tex fpos ftcoord
       = fragmentShaderNoAntiAliasing u tex fpos ftcoord"
proof -
  have pm: "vec4_of (smul3 (vec4_xyz c) (vec4_w c)) (vec4_w c) = premultiply_alpha c" for c
    by (simp add: premultiply_alpha_def vec4_of_def smul3_def vec4_xyz_def)
  have d: "scissorMask_aa u fpos \<noteq> 0 \<and> type u \<noteq> 2 \<and> strokeMask_aa u ftcoord < strokeThr u \<longrightarrow>
      fragmentShaderAntiAliasing u tex fpos ftcoord = vec4 0 0 0 0"
    by (simp add: fragmentShaderAntiAliasing_def Let_def vec4_splat_def)
  have i: "type u = 2 \<longrightarrow>
        fragmentShaderAntiAliasing (u\<lparr>strokeMult := m, strokeThr := t\<rparr>) tex fpos ftcoord
          = fragmentShaderAntiAliasing u tex fpos ftcoord"
    by (simp add: fragmentShaderAntiAliasing_def Let_def scissorMask_aa_def)
  have e: "type u = 2 \<longrightarrow>
        fragmentShaderAntiAliasing u tex fpos ftcoord
          = (if scissorMask_aa u fpos = 0 then vec4 0 0 0 0
             else mul4 (smul4 (if texType u = 1 then premultiply_alpha (tex ftcoord)
                               else if texType u = 2 then vec4_splat (vec4_x (tex ftcoord))
                               else tex ftcoord)
                              (scissorMask_aa u fpos))
                       (innerCol u))"
    by (simp add: fragmentShaderAntiAliasing_def Let_def pm) (simp add: vec4_splat_def)
  have n: "fragmentShaderNoAntiAliasing (u\<lparr>strokeMult := m, strokeThr := t\<rparr>) tex fpos ftcoord
       = fragmentShaderNoAntiAliasing u tex fpos ftcoord"
    by (simp add: fragmentShaderNoAntiAliasing_def Let_def scissorMask_noaa_def
        sdroundrect_noaa_def)
  from d i e n show ?thesis by blast
qed

theorem C4_witness:
  "scissorMask_aa (sample_uniforms\<lparr>strokeThr := 1\<rparr>) (vec2 0 0) \<noteq> 0
   \<and> type (sample_uniforms\<lparr>strokeThr := 1\<rparr>) \<noteq> 2
   \<and> strokeMask_aa (sample_uniforms\<lparr>strokeThr := 1\<rparr>) (vec2 0 0) < strokeThr (sample_uniforms\<lparr>strokeThr := 1\<rparr>)
   \<and> fragmentShaderAntiAliasing (sample_uniforms\<lparr>strokeThr := 1\<rparr>) sample_texture (vec2 0 0) (vec2 0 0)
        = vec4 0 0 0 0
   \<and> fragmentShaderNoAntiAliasing (sample_uniforms\<lparr>strokeMult := 7, strokeThr := 1\<rparr>) sample_texture (vec2 0 0) (vec2 0 0)
        = fragmentShaderNoAntiAliasing (sample_uniforms\<lparr>strokeThr := 1\<rparr>) sample_texture (vec2 0 0) (vec2 0 0)
   \<and> type (sample_uniforms\<lparr>type := 2\<rparr>) = 2
   \<and> fragmentShaderAntiAliasing (sample_uniforms\<lparr>type := 2, strokeMult := 7, strokeThr := 1\<rparr>)
        sample_texture (vec2 0 0) (vec2 0 0)
        = fragmentShaderAntiAliasing (sample_uniforms\<lparr>type := 2\<rparr>) sample_texture (vec2 0 0) (vec2 0 0)
   \<and> fragmentShaderAntiAliasing (sample_uniforms\<lparr>type := 2\<rparr>) sample_texture (vec2 0 0) (vec2 0 0)
        = mul4 (vec4 0 0 0 1) (vec4 1 0 0 1)"
proof -
  let ?u = "sample_uniforms\<lparr>strokeThr := 1\<rparr>"
  let ?v = "sample_uniforms\<lparr>type := 2\<rparr>"
  have g: "type ?v = 2" "texType ?v = 0" "innerCol ?v = vec4 1 0 0 1"
    by (simp_all add: sample_uniforms_def)
  have sc: "scissorMask_aa ?v (vec2 0 0) = 1"
    by (simp add: scissorMask_aa_def sample_simps glsl_simps)
  note t2 = C4_amended [where u = ?v and fpos = "vec2 0 0" and ftcoord = "vec2 0 0"
      and tex = sample_texture and m = 7 and t = 1, THEN conjunct2, THEN conjunct1,
      rule_format, OF g(1)]
  have w2: "fragmentShaderAntiAliasing (sample_uniforms\<lparr>type := 2, strokeMult := 7, strokeThr := 1\<rparr>)
        sample_texture (vec2 0 0) (vec2 0 0)
        = fragmentShaderAntiAliasing ?v sample_texture (vec2 0 0) (vec2 0 0)
     \<and> fragmentShaderAntiAliasing ?v sample_texture (vec2 0 0) (vec2 0 0)
        = mul4 (vec4 0 0 0 1) (vec4 1 0 0 1)"
    using t2 g sc by (simp add: smul4_one sample_texture_def)
  have h: "scissorMask_aa ?u (vec2 0 0) \<noteq> 0 \<and> type ?u \<noteq> 2
           \<and> strokeMask_aa ?u (vec2 0 0) < strokeThr ?u"
    by (simp add: scissorMask_aa_def strokeMask_aa_def sample_simps glsl_simps)
  from h C4_amended [where u = ?u and fpos = "vec2 0 0" and ftcoord = "vec2 0 0"
      and tex = sample_texture and m = 7 and t = 1]
  have w1: "scissorMask_aa ?u (vec2 0 0) \<noteq> 0 \<and> type ?u \<noteq> 2
      \<and> strokeMask_aa ?u (vec2 0 0) < strokeThr ?u
      \<and> fragmentShaderAntiAliasing ?u sample_texture (vec2 0 0) (vec2 0 0) = vec4 0 0 0 0
      \<and> fragmentShaderNoAntiAliasing (sample_uniforms\<lparr>strokeMult := 7, strokeThr := 1\<rparr>)
            sample_texture (vec2 0 0) (vec2 0 0)
          = fragmentShaderNoAntiAliasing ?u sample_texture (vec2 0 0) (vec2 0 0)"
    by simp
  from w1 w2 g(1) show ?thesis by blast
qed

text \<open>
  Without the restriction on \<^verbatim>\<open>type\<close> the claim fails: for \<^verbatim>\<open>type = 2\<close> the
  anti-aliased body returns the image colour before it computes the stroke coverage.
  Here the coverage is 0, the threshold 1, and the result is not transparent.
\<close>

theorem C4_counterexample:
  "scissorMask_aa (sample_uniforms\<lparr>innerCol := vec4 1 1 1 1, strokeThr := 1, type := 2\<rparr>) (vec2 0 0) \<noteq> 0
   \<and> strokeMask_aa (sample_uniforms\<lparr>innerCol := vec4 1 1 1 1, strokeThr := 1, type := 2\<rparr>) (vec2 0 0)
        < strokeThr (sample_uniforms\<lparr>innerCol := vec4 1 1 1 1, strokeThr := 1, type := 2\<rparr>)
   \<and> fragmentShaderAntiAliasing (sample_uniforms\<lparr>innerCol := vec4 1 1 1 1, strokeThr := 1, type := 2\<rparr>)
        sample_texture (vec2 0 0) (vec2 0 0) = vec4 0 0 0 1"
  by (simp add: frag_simps sample_simps glsl_simps)

section \<open>The gradient branch\<close>

text \<open>
  C5. With \<^verbatim>\<open>type = 0\<close>, \<^verbatim>\<open>feather = 2\<close>, \<^verbatim>\<open>radius = 10\<close>, \<^verbatim>\<open>innerCol = (1,0,0,1)\<close>
  and \<^verbatim>\<open>outerCol = (0,0,1,1)\<close>, at a fragment whose paint-space point has
  \<^verbatim>\<open>sdroundrect = 0\<close>, the blend factor \<open>d\<close> is 0.5 in both bodies and the mixed colour
  is \<open>(0.5, 0, 0.5, 1)\<close>; the body without anti-aliasing returns that colour times the
  scissor mask, the anti-aliased body that colour times the scissor mask and the stroke
  coverage (or the transparent colour when a test rejects the fragment).
\<close>

theorem C5_gradient_boundary:
  assumes "feather u = 2" and "radius u = 10"
    and "innerCol u = vec4 1 0 0 1" and "outerCol u = vec4 0 0 1 1"
    and "type u = 0"
    and "sdroundrect_noaa u (vec3_xy (mat3_mul_vec3 (paintMat u) (vec3_of fpos 1))) = 0"
  shows "clamp ((feather u * 0.5
                  + sdroundrect_noaa u (vec3_xy (mat3_mul_vec3 (paintMat u) (vec3_of fpos 1))))
                / feather u) 0 1 = 0.5
    \<and> clamp ((feather u * 0.5
                  + sdroundrect_aa u (vec3_xy (mat3_mul_vec3 (paintMat u) (vec3_of fpos 1))))
                / feather u) 0 1 = 0.5
    \<and> mix4 (innerCol u) (outerCol u) 0.5 = vec4 0.5 0 0.5 1
    \<and> fragmentShaderNoAntiAliasing u tex fpos ftcoord
        = smul4 (vec4 0.5 0 0.5 1) (scissorMask_noaa u fpos)
    \<and> fragmentShaderAntiAliasing u tex fpos ftcoord
        = (if scissorMask_aa u fpos = 0 \<or> strokeMask_aa u ftcoord < strokeThr u then vec4 0 0 0 0
           else smul4 (smul4 (vec4 0.5 0 0.5 1) (scissorMask_aa u fpos)) (strokeMask_aa u ftcoord))"
proof -
  let ?pt = "vec3_xy (mat3_mul_vec3 (paintMat u) (vec3_of fpos 1))"
  have d: "clamp ((feather u * 0.5 + sdroundrect_noaa u ?pt) / feather u) 0 1 = 0.5"
    using assms by (simp add: clamp_def)
  have m: "mix4 (innerCol u) (outerCol u) 0.5 = vec4 0.5 0 0.5 1"
    using assms by (simp add: mix4_def add4_def smul4_def)
  have n: "fragmentShaderNoAntiAliasing u tex fpos ftcoord
        = smul4 (vec4 0.5 0 0.5 1) (scissorMask_noaa u fpos)"
    using assms
    by (simp add: fragmentShaderNoAntiAliasing_def Let_def vec4_splat_def clamp_def
        mix4_def add4_def smul4_def)
  have a: "fragmentShaderAntiAliasing u tex fpos ftcoord
        = (if scissorMask_aa u fpos = 0 \<or> strokeMask_aa u ftcoord < strokeThr u then vec4 0 0 0 0
           else smul4 (smul4 (vec4 0.5 0 0.5 1) (scissorMask_aa u fpos)) (strokeMask_aa u ftcoord))"
    using assms
    by (simp add: fragmentShaderAntiAliasing_def Let_def vec4_splat_def sdroundrect_aa_eq
        clamp_def mix4_def add4_def smul4_def)
  from d m n a show ?thesis by (simp add: sdroundrect_aa_eq)
qed

lemma sample_sdroundrect: "sdroundrect_noaa sample_uniforms (vec2 20 0) = 0"
  by (simp add: sdroundrect_noaa_def sample_uniforms_def Let_def abs2_def sub2_def
      vec2_splat_def max2_def length2_axis)

theorem C5_witness:
  "feather sample_uniforms = 2 \<and> radius sample_uniforms = 10
   \<and> innerCol sample_uniforms = vec4 1 0 0 1 \<and> outerCol sample_uniforms = vec4 0 0 1 1
   \<and> type sample_uniforms = 0
   \<and> sdroundrect_noaa sample_uniforms (vec2 20 0) = 0
   \<and> fragmentShaderNoAntiAliasing sample_uniforms sample_texture (vec2 20 0) (vec2 (1/2) 1)
       = vec4 (1/2) 0 (1/2) 1
   \<and> fragmentShaderAntiAliasing sample_uniforms sample_texture (vec2 20 0) (vec2 (1/2) 1)
       = vec4 (1/2) 0 (1/2) 1"
proof -
  have pt: "vec3_xy (mat3_mul_vec3 (paintMat sample_uniforms) (vec3_of (vec2 20 0) 1)) = vec2 20 0"
    by (simp add: sample_simps glsl_simps)
  have sc: "scissorMask_noaa sample_uniforms (vec2 20 0) = 1"
    by (simp add: scissorMask_noaa_def sample_simps glsl_simps)
  have st: "strokeMask_aa sample_uniforms (vec2 (1/2) 1) = 1" "strokeThr sample_uniforms = - 1"
    by (simp_all add: strokeMask_aa_def sample_simps)
  have h: "feather sample_uniforms = 2" "radius sample_uniforms = 10"
    "innerCol sample_uniforms = vec4 1 0 0 1" "outerCol sample_uniforms = vec4 0 0 1 1"
    "type sample_uniforms = 0"
    by (simp_all add: sample_uniforms_def)
  have sd: "sdroundrect_noaa sample_uniforms
              (vec3_xy (mat3_mul_vec3 (paintMat sample_uniforms) (vec3_of (vec2 20 0) 1))) = 0"
    by (simp only: pt sample_sdroundrect)
  from C5_gradient_boundary [OF h sd, of sample_texture "vec2 (1/2) 1"] h sample_sdroundrect sc st
  show ?thesis by (simp add: scissorMask_aa_eq smul4_def)
qed

section \<open>The texture branches\<close>

text \<open>
  C6. With \<^verbatim>\<open>texType = 1\<close>, each of the four texture branches (image fill and image
  draw, in either body) replaces the sampled colour \<open>(r, g, b, a)\<close> by
  \<open>(r * a, g * a, b * a, a)\<close> before it applies the scissor mask, the stroke coverage
  where there is one, and \<^verbatim>\<open>innerCol\<close>; the sampled colour \<open>(1, 1, 1, 0.5)\<close> becomes
  \<open>(0.5, 0.5, 0.5, 0.5)\<close>.
\<close>

theorem C6_premultiply:
  assumes "texType u = 1"
  shows "(type u = 1 \<longrightarrow>
            fragmentShaderNoAntiAliasing u tex fpos ftcoord
              = mul4 (smul4 (premultiply_alpha (tex (div2 (vec3_xy (mat3_mul_vec3 (paintMat u) (vec3_of fpos 1)))
                                                    (extent u))))
                            (scissorMask_noaa u fpos))
                     (innerCol u))
    \<and> (type u \<noteq> 0 \<and> type u \<noteq> 1 \<longrightarrow>
            fragmentShaderNoAntiAliasing u tex fpos ftcoord
              = mul4 (smul4 (premultiply_alpha (tex ftcoord)) (scissorMask_noaa u fpos)) (innerCol u))
    \<and> (type u = 2 \<longrightarrow>
            fragmentShaderAntiAliasing u tex fpos ftcoord
              = mul4 (smul4 (premultiply_alpha (tex ftcoord)) (scissorMask_aa u fpos)) (innerCol u))
    \<and> (type u \<noteq> 2 \<and> type u \<noteq> 0 \<longrightarrow>
            fragmentShaderAntiAliasing u tex fpos ftcoord
              = (if strokeMask_aa u ftcoord < strokeThr u then vec4 0 0 0 0
                 else mul4 (smul4 (smul4 (premultiply_alpha (tex (div2 (vec3_xy (mat3_mul_vec3 (paintMat u) (vec3_of fpos 1)))
                                                                 (extent u))))
                                         (scissorMask_aa u fpos))
                                  (strokeMask_aa u ftcoord))
                           (innerCol u)))
    \<and> premultiply_alpha (vec4 1 1 1 0.5) = vec4 0.5 0.5 0.5 0.5"
proof -
  have pm: "vec4_of (smul3 (vec4_xyz c) (vec4_w c)) (vec4_w c) = premultiply_alpha c" for c
    by (simp add: premultiply_alpha_def vec4_of_def smul3_def vec4_xyz_def)
  show ?thesis
    using assms
    by (simp add: fragmentShaderNoAntiAliasing_def fragmentShaderAntiAliasing_def Let_def pm mul4_smul4_zero
        vec4_splat_def) (simp add: premultiply_alpha_def)
qed

theorem C6_witness:
  "texType (sample_uniforms\<lparr>texType := 1, type := 1\<rparr>) = 1
   \<and> fragmentShaderNoAntiAliasing (sample_uniforms\<lparr>texType := 1, type := 1\<rparr>)
        half_alpha_texture (vec2 0 0) (vec2 (1/2) 1)
       = mul4 (vec4 (1/2) (1/2) (1/2) (1/2)) (vec4 1 0 0 1)
   \<and> fragmentShaderNoAntiAliasing (sample_uniforms\<lparr>texType := 1, type := 2\<rparr>)
        half_alpha_texture (vec2 0 0) (vec2 (1/2) 1)
       = mul4 (vec4 (1/2) (1/2) (1/2) (1/2)) (vec4 1 0 0 1)
   \<and> fragmentShaderAntiAliasing (sample_uniforms\<lparr>texType := 1, type := 2\<rparr>)
        half_alpha_texture (vec2 0 0) (vec2 (1/2) 1)
       = mul4 (vec4 (1/2) (1/2) (1/2) (1/2)) (vec4 1 0 0 1)
   \<and> fragmentShaderAntiAliasing (sample_uniforms\<lparr>texType := 1, type := 1\<rparr>)
        half_alpha_texture (vec2 0 0) (vec2 (1/2) 1)
       = mul4 (vec4 (1/2) (1/2) (1/2) (1/2)) (vec4 1 0 0 1)"
proof -
  let ?u1 = "sample_uniforms\<lparr>texType := 1, type := 1\<rparr>"
  let ?u2 = "sample_uniforms\<lparr>texType := 1, type := 2\<rparr>"
  have h: "texType ?u1 = 1" "texType ?u2 = 1" by simp_all
  have sc: "scissorMask_noaa ?u1 (vec2 0 0) = 1" "scissorMask_noaa ?u2 (vec2 0 0) = 1"
    by (simp_all add: scissorMask_noaa_def sample_simps glsl_simps)
  have st: "strokeMask_aa ?u1 (vec2 (1/2) 1) = 1" "strokeThr ?u1 = - 1"
    by (simp_all add: strokeMask_aa_def sample_simps)
  have ic: "innerCol ?u1 = vec4 1 0 0 1" "innerCol ?u2 = vec4 1 0 0 1"
    by (simp_all add: sample_uniforms_def)
  have pm: "premultiply_alpha (half_alpha_texture p) = vec4 (1/2) (1/2) (1/2) (1/2)" for p
    by (simp add: premultiply_alpha_def half_alpha_texture_def)
  from C6_premultiply [OF h(1), of half_alpha_texture "vec2 0 0" "vec2 (1/2) 1"]
       C6_premultiply [OF h(2), of half_alpha_texture "vec2 0 0" "vec2 (1/2) 1"]
       sc st ic
  show ?thesis by (simp add: scissorMask_aa_eq pm smul4_one)
qed

text \<open>
  C7. For every \<^verbatim>\<open>texType\<close> other than 1 and 2 (3 or -1 as well as 0), both fragment
  functions return what they return for \<^verbatim>\<open>texType = 0\<close>, and each of the four texture
  branches uses the sampled colour unchanged.
\<close>

theorem C7_passthrough:
  assumes "texType u \<noteq> 1" and "texType u \<noteq> 2"
  shows "fragmentShaderNoAntiAliasing u tex fpos ftcoord
           = fragmentShaderNoAntiAliasing (u\<lparr>texType := 0\<rparr>) tex fpos ftcoord
    \<and> fragmentShaderAntiAliasing u tex fpos ftcoord
           = fragmentShaderAntiAliasing (u\<lparr>texType := 0\<rparr>) tex fpos ftcoord
    \<and> (type u = 1 \<longrightarrow>
            fragmentShaderNoAntiAliasing u tex fpos ftcoord
              = mul4 (smul4 (tex (div2 (vec3_xy (mat3_mul_vec3 (paintMat u) (vec3_of fpos 1)))
                                       (extent u)))
                            (scissorMask_noaa u fpos))
                     (innerCol u))
    \<and> (type u \<noteq> 0 \<and> type u \<noteq> 1 \<longrightarrow>
            fragmentShaderNoAntiAliasing u tex fpos ftcoord
              = mul4 (smul4 (tex ftcoord) (scissorMask_noaa u fpos)) (innerCol u))
    \<and> (type u = 2 \<longrightarrow>
            fragmentShaderAntiAliasing u tex fpos ftcoord
              = mul4 (smul4 (tex ftcoord) (scissorMask_aa u fpos)) (innerCol u))
    \<and> (type u \<noteq> 2 \<and> type u \<noteq> 0 \<longrightarrow>
            fragmentShaderAntiAliasing u tex fpos ftcoord
              = (if strokeMask_aa u ftcoord < strokeThr u then vec4 0 0 0 0
                 else mul4 (smul4 (smul4 (tex (div2 (vec3_xy (mat3_mul_vec3 (paintMat u) (vec3_of fpos 1)))
                                                    (extent u)))
                                         (scissorMask_aa u fpos))
                                  (strokeMask_aa u ftcoord))
                           (innerCol u)))"
proof -
  have inv: "scissorMask_noaa (u\<lparr>texType := 0\<rparr>) fpos = scissorMask_noaa u fpos"
    "scissorMask_aa (u\<lparr>texType := 0\<rparr>) fpos = scissorMask_aa u fpos"
    "strokeMask_aa (u\<lparr>texType := 0\<rparr>) ftcoord = strokeMask_aa u ftcoord"
    "sdroundrect_noaa (u\<lparr>texType := 0\<rparr>) p = sdroundrect_noaa u p"
    "sdroundrect_aa (u\<lparr>texType := 0\<rparr>) p = sdroundrect_aa u p" for p
    by (simp_all add: scissorMask_noaa_def scissorMask_aa_def strokeMask_aa_def
        sdroundrect_noaa_def sdroundrect_aa_def)
  show ?thesis
    using assms
    by (simp add: fragmentShaderNoAntiAliasing_def fragmentShaderAntiAliasing_def Let_def mul4_smul4_zero inv
        vec4_splat_def)
qed

theorem C7_witness:
  "texType (sample_uniforms\<lparr>texType := 3, type := 1\<rparr>) \<noteq> 1
   \<and> texType (sample_uniforms\<lparr>texType := 3, type := 1\<rparr>) \<noteq> 2
   \<and> texType (sample_uniforms\<lparr>texType := - 1, type := 2\<rparr>) \<noteq> 1
   \<and> texType (sample_uniforms\<lparr>texType := - 1, type := 2\<rparr>) \<noteq> 2
   \<and> fragmentShaderNoAntiAliasing (sample_uniforms\<lparr>texType := 3, type := 1\<rparr>)
        half_alpha_texture (vec2 0 0) (vec2 (1/2) 1)
       = mul4 (vec4 1 1 1 (1/2)) (vec4 1 0 0 1)
   \<and> fragmentShaderAntiAliasing (sample_uniforms\<lparr>texType := 3, type := 1\<rparr>)
        half_alpha_texture (vec2 0 0) (vec2 (1/2) 1)
       = mul4 (vec4 1 1 1 (1/2)) (vec4 1 0 0 1)
   \<and> fragmentShaderNoAntiAliasing (sample_uniforms\<lparr>texType := - 1, type := 2\<rparr>)
        half_alpha_texture (vec2 0 0) (vec2 (1/2) 1)
       = mul4 (vec4 1 1 1 (1/2)) (vec4 1 0 0 1)
   \<and> fragmentShaderAntiAliasing (sample_uniforms\<lparr>texType := - 1, type := 2\<rparr>)
        half_alpha_texture (vec2 0 0) (vec2 (1/2) 1)
       = mul4 (vec4 1 1 1 (1/2)) (vec4 1 0 0 1)"
proof -
  let ?u1 = "sample_uniforms\<lparr>texType := 3, type := 1\<rparr>"
  let ?u2 = "sample_uniforms\<lparr>texType := - 1, type := 2\<rparr>"
  have h1: "texType ?u1 \<noteq> 1" "texType ?u1 \<noteq> 2" by simp_all
  have h2: "texType ?u2 \<noteq> 1" "texType ?u2 \<noteq> 2" by simp_all
  have sc: "scissorMask_noaa ?u1 (vec2 0 0) = 1" "scissorMask_noaa ?u2 (vec2 0 0) = 1"
    by (simp_all add: scissorMask_noaa_def sample_simps glsl_simps)
  have st: "strokeMask_aa ?u1 (vec2 (1/2) 1) = 1" "strokeThr ?u1 = - 1"
    by (simp_all add: strokeMask_aa_def sample_simps)
  have ic: "innerCol ?u1 = vec4 1 0 0 1" "innerCol ?u2 = vec4 1 0 0 1"
    by (simp_all add: sample_uniforms_def)
  note a1 = C7_passthrough [OF h1, of half_alpha_texture "vec2 0 0" "vec2 (1/2) 1",
      THEN conjunct2, THEN conjunct2]
  note a2 = C7_passthrough [OF h2, of half_alpha_texture "vec2 0 0" "vec2 (1/2) 1",
      THEN conjunct2, THEN conjunct2]
  from a1 a2 sc st ic
  show ?thesis by (simp add: scissorMask_aa_eq smul4_one half_alpha_texture_def)
qed

section \<open>Logical draw size\<close>



section \<open>Clip-space position\<close>

text \<open>
  C9. For a view size with nonzero components, \<^verbatim>\<open>gl_Position\<close> is the uniform matrix
  applied to \<open>(2 * pos.x / viewSize.x - 1, 1 - 2 * pos.y / viewSize.y, 0, 1)\<close>: the
  pixel origin is normalised to \<open>(-1, 1)\<close> and the point \<^verbatim>\<open>viewSize\<close> to \<open>(1, -1)\<close>,
  and the matrix acts on the normalised point.
\<close>

theorem C9_vertex_position:
  assumes "vec2_x (viewSize u) \<noteq> 0" and "vec2_y (viewSize u) \<noteq> 0"
  shows "gl_Position (vertex_main u pos tcoord)
           = mat4_mul_vec4 (matrix u)
               (vec4 (2 * vec2_x pos / vec2_x (viewSize u) - 1)
                     (1 - 2 * vec2_y pos / vec2_y (viewSize u)) 0 1)
    \<and> gl_Position (vertex_main u (vec2 0 0) tcoord) = mat4_mul_vec4 (matrix u) (vec4 (- 1) 1 0 1)
    \<and> gl_Position (vertex_main u (viewSize u) tcoord) = mat4_mul_vec4 (matrix u) (vec4 1 (- 1) 0 1)"
  using assms by (simp add: vertex_main_def Let_def)

theorem C9_witness:
  "vec2_x (viewSize sample_vertex_uniforms) \<noteq> 0 \<and> vec2_y (viewSize sample_vertex_uniforms) \<noteq> 0
   \<and> gl_Position (vertex_main sample_vertex_uniforms (vec2 0 0) (vec2 0 0)) = vec4 (- 1) (- 1) 0 1
   \<and> gl_Position (vertex_main sample_vertex_uniforms (vec2 800 600) (vec2 0 0)) = vec4 1 1 0 1
   \<and> gl_Position (vertex_main sample_vertex_uniforms (vec2 200 150) (vec2 0 0))
       = vec4 (- (1/2)) (- (1/2)) 0 1"
proof -
  have h: "vec2_x (viewSize sample_vertex_uniforms) \<noteq> 0" "vec2_y (viewSize sample_vertex_uniforms) \<noteq> 0"
    by (simp_all add: sample_vertex_uniforms_def)
  have v: "viewSize sample_vertex_uniforms = vec2 800 600" "matrix sample_vertex_uniforms = mat4 (vec4 0 1 0 0) (vec4 (- 1) 0 0 0) (vec4 0 0 1 0) (vec4 0 0 0 1)"
    by (simp_all add: sample_vertex_uniforms_def)
  from C9_vertex_position [OF h, of "vec2 200 150" "vec2 0 0"] h v
  show ?thesis by (simp add: mat4_mul_vec4_def)
qed

end
